theory Spec2Isabelle
  imports Main
begin

section \<open>Persistence store\<close>

text \<open>
  The three SQLite tables of \<^verbatim>\<open>db_init\<close>. A table is the list of its rows, in the order
  a \<^verbatim>\<open>SELECT\<close> returns them; the primary key of each table is the triple
  \<^verbatim>\<open>(user_id, platform, identifier)\<close>. The key columns are \<^verbatim>\<open>NOT NULL\<close>, every other column
  may hold \<^verbatim>\<open>NULL\<close> and is an option.
\<close>

type_synonym key = "int \<times> string \<times> string"

record wishlist_row =
  wl_user_id :: int
  wl_platform :: string
  wl_identifier :: string
  wl_title :: "string option"

record tracking_row =
  tr_user_id :: int
  tr_platform :: string
  tr_identifier :: string
  tr_title :: "string option"
  tr_threshold :: "int option"

record notify_row =
  ns_user_id :: int
  ns_platform :: string
  ns_identifier :: string
  last_discount_percent :: "int option"
  last_price :: "int option"
  last_notified_at :: "int option"

definition wl_key :: "wishlist_row \<Rightarrow> key" where
  "wl_key r = (wl_user_id r, wl_platform r, wl_identifier r)"

definition tr_key :: "tracking_row \<Rightarrow> key" where
  "tr_key r = (tr_user_id r, tr_platform r, tr_identifier r)"

definition ns_key :: "notify_row \<Rightarrow> key" where
  "ns_key r = (ns_user_id r, ns_platform r, ns_identifier r)"

text \<open>
  \<^verbatim>\<open>sqlite3.IntegrityError\<close>: what an \<^verbatim>\<open>INSERT\<close> raises when the primary key is already
  in the table.
\<close>

datatype sql_error = IntegrityError

definition insert_wishlist :: "wishlist_row \<Rightarrow> wishlist_row list \<Rightarrow> sql_error + wishlist_row list" where
  "insert_wishlist r tbl =
     (case find (\<lambda>x. wl_key x = wl_key r) tbl of
        Some _ \<Rightarrow> Inl IntegrityError
      | None \<Rightarrow> Inr (tbl @ [r]))"

definition insert_tracking :: "tracking_row \<Rightarrow> tracking_row list \<Rightarrow> sql_error + tracking_row list" where
  "insert_tracking r tbl =
     (case find (\<lambda>x. tr_key x = tr_key r) tbl of
        Some _ \<Rightarrow> Inl IntegrityError
      | None \<Rightarrow> Inr (tbl @ [r]))"

text \<open>
  \<^verbatim>\<open>db_add_wishlist\<close>: the insert is committed and \<^verbatim>\<open>True\<close> returned; an
  \<^verbatim>\<open>IntegrityError\<close> is caught, nothing is committed and \<^verbatim>\<open>False\<close> is returned.
\<close>

definition db_add_wishlist ::
  "int \<Rightarrow> string \<Rightarrow> string \<Rightarrow> string option \<Rightarrow> wishlist_row list \<Rightarrow> bool \<times> wishlist_row list" where
  "db_add_wishlist user_id platform identifier title tbl =
     (case insert_wishlist \<lparr>wl_user_id = user_id, wl_platform = platform,
                            wl_identifier = identifier, wl_title = title\<rparr> tbl of
        Inr tbl' \<Rightarrow> (True, tbl')
      | Inl IntegrityError \<Rightarrow> (False, tbl))"

definition db_get_wishlist :: "int \<Rightarrow> wishlist_row list \<Rightarrow> (string \<times> string \<times> string option) list" where
  "db_get_wishlist user_id tbl =
     map (\<lambda>r. (wl_platform r, wl_identifier r, wl_title r)) (filter (\<lambda>r. wl_user_id r = user_id) tbl)"

text \<open>
  \<^verbatim>\<open>db_remove_wishlist\<close>: \<^verbatim>\<open>DELETE ... WHERE\<close> the three key columns match;
  \<^verbatim>\<open>changed = cur.rowcount\<close> is the number of rows deleted, the result is \<^verbatim>\<open>changed > 0\<close>.
\<close>

definition db_remove_wishlist ::
  "int \<Rightarrow> string \<Rightarrow> string \<Rightarrow> wishlist_row list \<Rightarrow> bool \<times> wishlist_row list" where
  "db_remove_wishlist user_id platform identifier tbl =
     (let changed = length (filter (\<lambda>r. wl_key r = (user_id, platform, identifier)) tbl)
      in (changed > 0, filter (\<lambda>r. wl_key r \<noteq> (user_id, platform, identifier)) tbl))"

text \<open>
  \<^verbatim>\<open>db_add_tracking\<close>, with the default \<^verbatim>\<open>threshold=0\<close> supplied by the caller. (In the
  source the handler's \<^verbatim>\<open>return False\<close> is preceded by a stray pasted line; the handler is
  read as in \<^verbatim>\<open>db_add_wishlist\<close>.)
\<close>

definition db_add_tracking ::
  "int \<Rightarrow> string \<Rightarrow> string \<Rightarrow> string option \<Rightarrow> int option \<Rightarrow> tracking_row list
     \<Rightarrow> bool \<times> tracking_row list" where
  "db_add_tracking user_id platform identifier title threshold tbl =
     (case insert_tracking \<lparr>tr_user_id = user_id, tr_platform = platform,
                            tr_identifier = identifier, tr_title = title,
                            tr_threshold = threshold\<rparr> tbl of
        Inr tbl' \<Rightarrow> (True, tbl')
      | Inl IntegrityError \<Rightarrow> (False, tbl))"

definition db_remove_tracking ::
  "int \<Rightarrow> string \<Rightarrow> string \<Rightarrow> tracking_row list \<Rightarrow> bool \<times> tracking_row list" where
  "db_remove_tracking user_id platform identifier tbl =
     (let changed = length (filter (\<lambda>r. tr_key r = (user_id, platform, identifier)) tbl)
      in (changed > 0, filter (\<lambda>r. tr_key r \<noteq> (user_id, platform, identifier)) tbl))"

definition db_get_all_tracked :: "tracking_row list \<Rightarrow> tracking_row list" where
  "db_get_all_tracked tbl = tbl"

text \<open>
  \<^verbatim>\<open>db_upsert_notify_state\<close>: \<^verbatim>\<open>INSERT ... ON CONFLICT(user_id, platform, identifier) DO
  UPDATE SET\<close> the three value columns. The reading \<^verbatim>\<open>ts = int(time.time())\<close> is the first
  argument.
\<close>

definition db_upsert_notify_state ::
  "int \<Rightarrow> int \<Rightarrow> string \<Rightarrow> string \<Rightarrow> int \<Rightarrow> int option \<Rightarrow> notify_row list \<Rightarrow> notify_row list" where
  "db_upsert_notify_state ts user_id platform identifier discount_percent price tbl =
     (case find (\<lambda>r. ns_key r = (user_id, platform, identifier)) tbl of
        None \<Rightarrow>
          tbl @ [\<lparr>ns_user_id = user_id, ns_platform = platform, ns_identifier = identifier,
                  last_discount_percent = Some discount_percent, last_price = price,
                  last_notified_at = Some ts\<rparr>]
      | Some _ \<Rightarrow>
          map (\<lambda>r. if ns_key r = (user_id, platform, identifier)
                    then r\<lparr>last_discount_percent := Some discount_percent, last_price := price,
                           last_notified_at := Some ts\<rparr>
                    else r) tbl)"

text \<open>\<^verbatim>\<open>db_get_notify_state\<close>: \<^verbatim>\<open>fetchone()\<close> of the select by key, a triple or \<^verbatim>\<open>None\<close>.\<close>

definition db_get_notify_state ::
  "int \<Rightarrow> string \<Rightarrow> string \<Rightarrow> notify_row list \<Rightarrow> (int option \<times> int option \<times> int option) option" where
  "db_get_notify_state user_id platform identifier tbl =
     map_option (\<lambda>r. (last_discount_percent r, last_price r, last_notified_at r))
       (find (\<lambda>r. ns_key r = (user_id, platform, identifier)) tbl)"

section \<open>Price snapshots and messages\<close>

text \<open>The dictionary \<^verbatim>\<open>fetch_steam_appdetails\<close> returns; \<^verbatim>\<open>None\<close> is the unavailable result.\<close>

record info =
  name :: "string option"
  discount_percent :: int
  final_price :: "int option"
  original_price :: "int option"
  url :: string

text \<open>
  The \<^verbatim>\<open>reason\<close> string of the job: empty, \<^verbatim>\<open>f"Discount -{disc}%"\<close>, or
  \<^verbatim>\<open>f"Price dropped from {rupees(last_price)} to {rupees(final_price)}"\<close>. A format string
  is kept as its template and the values put into it, so that the number formatting of
  \<^verbatim>\<open>rupees\<close> (a floating-point division) is not interpreted.
\<close>

datatype reason = NoReason | Discount int | PriceDropped "int option" "int option"

text \<open>The alert text: title, reason, \<^verbatim>\<open>info['url']\<close>, and the two prices given to \<^verbatim>\<open>rupees\<close>.\<close>

record message =
  msg_title :: "string option"
  msg_reason :: reason
  msg_url :: string
  msg_now :: "int option"
  msg_mrp :: "int option"

section \<open>The background job\<close>

text \<open>
  What the job meets outside the process during one run: the result of
  \<^verbatim>\<open>fetch_steam_appdetails\<close> for an app id, whether \<^verbatim>\<open>send_message\<close> returns or raises an
  \<^verbatim>\<open>Exception\<close>, and the successive readings of \<^verbatim>\<open>time.time()\<close>. The handler
  \<^verbatim>\<open>except Exception: pass\<close> covers every failure of a delivery; a cancellation of the
  running task, which is no \<^verbatim>\<open>Exception\<close>, is not part of the model.
\<close>

datatype send_outcome = Delivered | Raised

record env =
  fetch_steam_appdetails :: "string \<Rightarrow> info option"
  send_message :: "int \<Rightarrow> message \<Rightarrow> send_outcome"
  clock :: "nat \<Rightarrow> int"

text \<open>
  The state the job runs in: the three tables, the calls made to \<^verbatim>\<open>send_message\<close> so far
  with their outcome, and how many times the clock has been read.
\<close>

record world =
  wishlist :: "wishlist_row list"
  tracking :: "tracking_row list"
  notify_state :: "notify_row list"
  sent :: "(int \<times> message \<times> send_outcome) list"
  clock_reads :: nat

text \<open>Python truthiness of an optional integer: \<^verbatim>\<open>None\<close> and \<^verbatim>\<open>0\<close> are false.\<close>

definition truthy :: "int option \<Rightarrow> bool" where
  "truthy x = (case x of None \<Rightarrow> False | Some v \<Rightarrow> v \<noteq> 0)"

text \<open>
  The \<^verbatim>\<open>if\<close>/\<^verbatim>\<open>elif\<close> chain of \<^verbatim>\<open>job_check_prices\<close> that sets \<^verbatim>\<open>notify\<close> and \<^verbatim>\<open>reason\<close>.
  The comparison of the second branch is only reached when both prices are truthy, hence
  integers.
\<close>

definition notify_decision :: "int \<Rightarrow> int option \<Rightarrow> int option \<Rightarrow> int option \<Rightarrow> bool \<times> reason" where
  "notify_decision disc final_price' last_disc last_price' =
     (if disc > 0 \<and> last_disc \<noteq> Some disc then (True, Discount disc)
      else if truthy final_price' \<and> truthy last_price' \<and> the final_price' < the last_price'
        then (True, PriceDropped last_price' final_price')
      else if last_disc = None \<and> disc > 0 then (True, Discount disc)
      else (False, NoReason))"

text \<open>
  \<^verbatim>\<open>last_disc = state[0] if state else None\<close> and \<^verbatim>\<open>last_price = state[1] if state else None\<close>;
  a fetched row is a non-empty tuple, hence true.
\<close>

definition last_disc_of :: "(int option \<times> int option \<times> int option) option \<Rightarrow> int option" where
  "last_disc_of state = (case state of Some s \<Rightarrow> fst s | None \<Rightarrow> None)"

definition last_price_of :: "(int option \<times> int option \<times> int option) option \<Rightarrow> int option" where
  "last_price_of state = (case state of Some s \<Rightarrow> fst (snd s) | None \<Rightarrow> None)"

text \<open>The decision of the job for one snapshot and one fetched state row.\<close>

definition item_decision ::
  "info \<Rightarrow> (int option \<times> int option \<times> int option) option \<Rightarrow> bool \<times> reason" where
  "item_decision i state =
     notify_decision (discount_percent i) (final_price i) (last_disc_of state) (last_price_of state)"

text \<open>One iteration of the loop of \<^verbatim>\<open>job_check_prices\<close>.\<close>

definition process_row :: "env \<Rightarrow> tracking_row \<Rightarrow> world \<Rightarrow> world" where
  "process_row e row w =
     (let user_id = tr_user_id row; plat = tr_platform row; ident = tr_identifier row;
          title = tr_title row
      in if plat \<noteq> ''steam'' then w
         else case fetch_steam_appdetails e ident of
           None \<Rightarrow> w
         | Some i \<Rightarrow>
             let disc = discount_percent i;
                 final_price' = final_price i;
                 state = db_get_notify_state user_id plat ident (notify_state w);
                 (notify, reason) = item_decision i state
             in if notify then
                  let txt = \<lparr>msg_title = title, msg_reason = reason, msg_url = url i,
                             msg_now = final_price', msg_mrp = original_price i\<rparr>;
                      outcome = send_message e user_id txt
                  in w\<lparr>sent := sent w @ [(user_id, txt, outcome)],
                       notify_state := db_upsert_notify_state (clock e (clock_reads w))
                                         user_id plat ident disc final_price' (notify_state w),
                       clock_reads := Suc (clock_reads w)\<rparr>
                else if state = None then
                  w\<lparr>notify_state := db_upsert_notify_state (clock e (clock_reads w))
                                       user_id plat ident disc final_price' (notify_state w),
                    clock_reads := Suc (clock_reads w)\<rparr>
                else w)"

fun for_rows :: "env \<Rightarrow> tracking_row list \<Rightarrow> world \<Rightarrow> world" where
  "for_rows e [] w = w"
| "for_rows e (row # rows) w = for_rows e rows (process_row e row w)"

definition job_check_prices :: "env \<Rightarrow> world \<Rightarrow> world" where
  "job_check_prices e w = for_rows e (db_get_all_tracked (tracking w)) w"

section \<open>The decision rules as the specification words them\<close>

text \<open>
  The four rules in priority order, on a snapshot \<^verbatim>\<open>current\<close> and an optional last state
  \<^verbatim>\<open>(last_discount_percent, last_price, last_notified_at)\<close>: the result is whether to notify.
\<close>

definition spec_decision :: "info \<Rightarrow> (int option \<times> int option \<times> int option) option \<Rightarrow> bool" where
  "spec_decision current last_state =
     (if last_state = None \<and> discount_percent current > 0 then True
      else if last_state \<noteq> None \<and> Some (discount_percent current) \<noteq> last_disc_of last_state
              \<and> discount_percent current > 0 then True
      else (case (final_price current, last_price_of last_state) of
              (Some f, Some l) \<Rightarrow> f < l
            | _ \<Rightarrow> False))"

section \<open>Notation and sample data\<close>

text \<open>The state row the job reads for a tracked row: \<^verbatim>\<open>db_get_notify_state(user_id, plat, ident)\<close>.\<close>

abbreviation state_of :: "tracking_row \<Rightarrow> world \<Rightarrow> (int option \<times> int option \<times> int option) option" where
  "state_of row w \<equiv> db_get_notify_state (tr_user_id row) (tr_platform row) (tr_identifier row) (notify_state w)"

text \<open>A sample snapshot, tracked row, outside world and store, used to run the model.\<close>

abbreviation ex_info :: "int \<Rightarrow> int option \<Rightarrow> info" where
  "ex_info d p \<equiv> \<lparr>name = Some ''Game'', discount_percent = d, final_price = p,
                   original_price = Some 1000, url = ''https://store.steampowered.com/app/20''\<rparr>"

abbreviation ex_row :: "string \<Rightarrow> tracking_row" where
  "ex_row ident \<equiv> \<lparr>tr_user_id = 7, tr_platform = ''steam'', tr_identifier = ident,
                    tr_title = Some ''Game'', tr_threshold = Some 0\<rparr>"

abbreviation ex_env :: "int \<Rightarrow> int option \<Rightarrow> env" where
  "ex_env d p \<equiv> \<lparr>fetch_steam_appdetails = (\<lambda>appid. if appid = ''10'' then None else Some (ex_info d p)),
                  send_message = (\<lambda>chat_id text. Raised),
                  clock = (\<lambda>n. 1700000000 + int n)\<rparr>"

abbreviation ex_state :: "int \<Rightarrow> int option \<Rightarrow> notify_row" where
  "ex_state d p \<equiv> \<lparr>ns_user_id = 7, ns_platform = ''steam'', ns_identifier = ''20'',
                    last_discount_percent = Some d, last_price = p, last_notified_at = Some 1600000000\<rparr>"

abbreviation ex_world :: "notify_row list \<Rightarrow> world" where
  "ex_world tbl \<equiv> \<lparr>wishlist = [], tracking = [], notify_state = tbl, sent = [], clock_reads = 0\<rparr>"

section \<open>Basic facts about the store and the loop\<close>

lemma find_map_upd:
  "find P (map (\<lambda>r. if P r then f r else r) tbl) = map_option f (find P tbl)"
  if "\<And>r. P r \<Longrightarrow> P (f r)"
  using that by (induction tbl) auto

lemma find_snoc:
  "find P (xs @ [y]) = (case find P xs of None \<Rightarrow> (if P y then Some y else None) | Some x \<Rightarrow> Some x)"
  by (induction xs) auto

lemma get_after_upsert:
  "db_get_notify_state u p i (db_upsert_notify_state ts u p i d pr tbl) = Some (Some d, pr, Some ts)"
proof (cases "find (\<lambda>r. ns_key r = (u, p, i)) tbl")
  case None
  then show ?thesis
    by (simp add: db_get_notify_state_def db_upsert_notify_state_def find_snoc ns_key_def)
next
  case (Some r)
  have "find (\<lambda>r. ns_key r = (u, p, i))
          (map (\<lambda>r. if ns_key r = (u, p, i)
                    then r\<lparr>last_discount_percent := Some d, last_price := pr, last_notified_at := Some ts\<rparr>
                    else r) tbl)
        = map_option (\<lambda>r. r\<lparr>last_discount_percent := Some d, last_price := pr, last_notified_at := Some ts\<rparr>)
            (find (\<lambda>r. ns_key r = (u, p, i)) tbl)"
    by (rule find_map_upd) (simp add: ns_key_def)
  with Some show ?thesis
    by (simp add: db_get_notify_state_def db_upsert_notify_state_def)
qed

lemma process_row_skip:
  "tr_platform row \<noteq> ''steam'' \<or> fetch_steam_appdetails e (tr_identifier row) = None
     \<Longrightarrow> process_row e row w = w"
  by (auto simp: process_row_def Let_def)

lemma process_row_notify:
  assumes "tr_platform row = ''steam''" "fetch_steam_appdetails e (tr_identifier row) = Some i"
    "fst (item_decision i (state_of row w))"
  shows "process_row e row w =
     w\<lparr>sent := sent w @ [(tr_user_id row,
            \<lparr>msg_title = tr_title row, msg_reason = snd (item_decision i (state_of row w)),
             msg_url = url i, msg_now = final_price i, msg_mrp = original_price i\<rparr>,
            send_message e (tr_user_id row)
              \<lparr>msg_title = tr_title row, msg_reason = snd (item_decision i (state_of row w)),
               msg_url = url i, msg_now = final_price i, msg_mrp = original_price i\<rparr>)],
       notify_state := db_upsert_notify_state (clock e (clock_reads w)) (tr_user_id row)
            (tr_platform row) (tr_identifier row) (discount_percent i) (final_price i) (notify_state w),
       clock_reads := Suc (clock_reads w)\<rparr>"
  using assms by (simp add: process_row_def Let_def case_prod_beta)

lemma process_row_bootstrap:
  assumes "tr_platform row = ''steam''" "fetch_steam_appdetails e (tr_identifier row) = Some i"
    "\<not> fst (item_decision i (state_of row w))" "state_of row w = None"
  shows "process_row e row w =
     w\<lparr>notify_state := db_upsert_notify_state (clock e (clock_reads w)) (tr_user_id row)
            (tr_platform row) (tr_identifier row) (discount_percent i) (final_price i) (notify_state w),
       clock_reads := Suc (clock_reads w)\<rparr>"
  using assms by (simp add: process_row_def Let_def case_prod_beta)

lemma process_row_noop:
  assumes "tr_platform row = ''steam''" "fetch_steam_appdetails e (tr_identifier row) = Some i"
    "\<not> fst (item_decision i (state_of row w))" "state_of row w \<noteq> None"
  shows "process_row e row w = w"
  using assms by (auto simp add: process_row_def Let_def case_prod_beta)

lemma process_row_tracking:
  "process_row e row (w\<lparr>tracking := T\<rparr>) = (process_row e row w)\<lparr>tracking := T\<rparr>"
  by (simp add: process_row_def Let_def case_prod_beta split: option.splits)

lemma for_rows_tracking:
  "for_rows e rows (w\<lparr>tracking := T\<rparr>) = (for_rows e rows w)\<lparr>tracking := T\<rparr>"
  by (induction rows arbitrary: w) (simp_all add: process_row_tracking)

lemma for_rows_append:
  "for_rows e (xs @ ys) w = for_rows e ys (for_rows e xs w)"
  by (induction xs arbitrary: w) simp_all

lemma process_row_threshold:
  "process_row e (row\<lparr>tr_threshold := th\<rparr>) w = process_row e row w"
  by (simp add: process_row_def)

lemma for_rows_threshold:
  "for_rows e (map (\<lambda>r. r\<lparr>tr_threshold := f r\<rparr>) rows) w = for_rows e rows w"
  by (induction rows arbitrary: w) (simp_all add: process_row_threshold)

lemma state_after_notify:
  assumes "tr_platform row = ''steam''" "fetch_steam_appdetails e (tr_identifier row) = Some i"
    "fst (item_decision i (state_of row w))"
  shows "state_of row (process_row e row w)
           = Some (Some (discount_percent i), final_price i, Some (clock e (clock_reads w)))"
  by (simp add: process_row_notify [OF assms] get_after_upsert)

lemma decision_same_snapshot:
  "item_decision i (Some (Some (discount_percent i), final_price i, t)) = (False, NoReason)"
  by (simp add: item_decision_def notify_decision_def last_disc_of_def last_price_of_def)

lemma upsert_absent:
  assumes "db_get_notify_state u p i tbl = None"
  shows "db_upsert_notify_state ts u p i d pr tbl =
     tbl @ [\<lparr>ns_user_id = u, ns_platform = p, ns_identifier = i,
             last_discount_percent = Some d, last_price = pr, last_notified_at = Some ts\<rparr>]"
  using assms by (simp add: db_get_notify_state_def db_upsert_notify_state_def)

lemma decision_discount_reverted:
  assumes "discount_percent i = 0"
    and "case (final_price i, lp) of (Some f, Some l) \<Rightarrow> l \<le> f | _ \<Rightarrow> True"
  shows "item_decision i (Some (ld, lp, t)) = (False, NoReason)"
  using assms
  by (auto simp: item_decision_def notify_decision_def last_disc_of_def last_price_of_def
        truthy_def split: option.splits)

lemma find_Some_mem: "find P xs = Some x \<Longrightarrow> x \<in> set xs \<and> P x"
  by (induction xs) (auto split: if_splits)

lemma upsert_keys:
  "map ns_key (db_upsert_notify_state ts u p i d pr tbl) =
     (if (u, p, i) \<in> ns_key ` set tbl then map ns_key tbl else map ns_key tbl @ [(u, p, i)])"
proof (cases "find (\<lambda>r. ns_key r = (u, p, i)) tbl")
  case None
  then have "(u, p, i) \<notin> ns_key ` set tbl"
    by (auto simp: find_None_iff)
  with None show ?thesis
    by (simp add: db_upsert_notify_state_def ns_key_def)
next
  case (Some r)
  then have "r \<in> set tbl" and "ns_key r = (u, p, i)"
    by (auto dest: find_Some_mem)
  then have "(u, p, i) \<in> ns_key ` set tbl"
    by force
  moreover have "map ns_key (map (\<lambda>r. if ns_key r = (u, p, i)
                    then r\<lparr>last_discount_percent := Some d, last_price := pr,
                           last_notified_at := Some ts\<rparr>
                    else r) tbl) = map ns_key tbl"
    by (induction tbl) (simp_all add: ns_key_def)
  ultimately show ?thesis
    using Some by (simp add: db_upsert_notify_state_def)
qed

lemma upsert_distinct:
  "distinct (map ns_key tbl) \<Longrightarrow> distinct (map ns_key (db_upsert_notify_state ts u p i d pr tbl))"
  by (simp add: upsert_keys)

lemma upsert_others:
  "filter (\<lambda>r. ns_key r \<noteq> (u, p, i)) (db_upsert_notify_state ts u p i d pr tbl)
     = filter (\<lambda>r. ns_key r \<noteq> (u, p, i)) tbl"
proof -
  have "filter (\<lambda>r. ns_key r \<noteq> (u, p, i)) (map (\<lambda>r. if ns_key r = (u, p, i)
                    then r\<lparr>last_discount_percent := Some d, last_price := pr,
                           last_notified_at := Some ts\<rparr>
                    else r) tbl) = filter (\<lambda>r. ns_key r \<noteq> (u, p, i)) tbl"
    by (induction tbl) (simp_all add: ns_key_def)
  then show ?thesis
    by (simp add: db_upsert_notify_state_def ns_key_def split: option.splits)
qed

lemma one_row_of_key:
  assumes "distinct (map ns_key tbl)" "k \<in> ns_key ` set tbl"
  shows "length (filter (\<lambda>r. ns_key r = k) tbl) = 1"
  using assms
proof (induction tbl)
  case Nil
  then show ?case by simp
next
  case (Cons r tbl)
  show ?case
  proof (cases "ns_key r = k")
    case True
    with Cons.prems have "k \<notin> ns_key ` set tbl" by auto
    then have "filter (\<lambda>r. ns_key r = k) tbl = []"
      by (auto simp: filter_empty_conv)
    with True show ?thesis by simp
  next
    case False
    with Cons show ?thesis by auto
  qed
qed

lemma upsert_one_row:
  assumes "distinct (map ns_key tbl)"
  shows "length (filter (\<lambda>r. ns_key r = (u, p, i)) (db_upsert_notify_state ts u p i d pr tbl)) = 1"
proof (rule one_row_of_key)
  show "distinct (map ns_key (db_upsert_notify_state ts u p i d pr tbl))"
    using assms by (rule upsert_distinct)
  have "(u, p, i) \<in> set (map ns_key (db_upsert_notify_state ts u p i d pr tbl))"
    unfolding upsert_keys by auto
  then show "(u, p, i) \<in> ns_key ` set (db_upsert_notify_state ts u p i d pr tbl)"
    by simp
qed

lemma process_row_distinct:
  "distinct (map ns_key (notify_state w)) \<Longrightarrow> distinct (map ns_key (notify_state (process_row e row w)))"
  by (simp add: process_row_def Let_def case_prod_beta upsert_distinct split: option.splits)

lemma for_rows_distinct:
  "distinct (map ns_key (notify_state w)) \<Longrightarrow> distinct (map ns_key (notify_state (for_rows e rows w)))"
  by (induction rows arbitrary: w) (simp_all add: process_row_distinct)

lemma find_key_None: "(find (\<lambda>x. f x = k) xs = None) = (k \<notin> f ` set xs)"
  by (auto simp: find_None_iff)

lemma add_wishlist_result:
  "db_add_wishlist u p i t wl =
     (if (u, p, i) \<in> wl_key ` set wl then (False, wl)
      else (True, wl @ [\<lparr>wl_user_id = u, wl_platform = p, wl_identifier = i, wl_title = t\<rparr>]))"
proof (cases "find (\<lambda>x. wl_key x = (u, p, i)) wl")
  case None
  then show ?thesis
    using find_key_None [of wl_key "(u, p, i)" wl]
    by (simp add: db_add_wishlist_def insert_wishlist_def wl_key_def)
next
  case (Some r)
  then show ?thesis
    using find_key_None [of wl_key "(u, p, i)" wl]
    by (simp add: db_add_wishlist_def insert_wishlist_def wl_key_def)
qed

lemma add_tracking_result:
  "db_add_tracking u p i t th tr =
     (if (u, p, i) \<in> tr_key ` set tr then (False, tr)
      else (True, tr @ [\<lparr>tr_user_id = u, tr_platform = p, tr_identifier = i, tr_title = t,
                         tr_threshold = th\<rparr>]))"
proof (cases "find (\<lambda>x. tr_key x = (u, p, i)) tr")
  case None
  then show ?thesis
    using find_key_None [of tr_key "(u, p, i)" tr]
    by (simp add: db_add_tracking_def insert_tracking_def tr_key_def)
next
  case (Some r)
  then show ?thesis
    using find_key_None [of tr_key "(u, p, i)" tr]
    by (simp add: db_add_tracking_def insert_tracking_def tr_key_def)
qed

lemma filter_key_nonempty: "(filter (\<lambda>r. f r = k) xs \<noteq> []) = (k \<in> f ` set xs)"
  by (induction xs) auto

lemma decision_agrees_nonzero:
  "final_price i \<noteq> Some 0 \<Longrightarrow> last_price_of state \<noteq> Some 0 \<Longrightarrow>
     fst (item_decision i state) = spec_decision i state"
  by (cases state)
     (auto simp: item_decision_def notify_decision_def spec_decision_def truthy_def
        last_disc_of_def last_price_of_def split: option.splits)

lemma price_drop_notifies_nonzero:
  "f \<noteq> 0 \<Longrightarrow> l \<noteq> 0 \<Longrightarrow> f < l \<Longrightarrow> final_price i = Some f \<Longrightarrow>
     \<not> (0 < discount_percent i \<and> ld \<noteq> Some (discount_percent i)) \<Longrightarrow>
     item_decision i (Some (ld, Some l, t)) = (True, PriceDropped (Some l) (Some f))"
  by (simp add: item_decision_def notify_decision_def truthy_def last_disc_of_def last_price_of_def)

section \<open>The decision against the four rules\<close>

text \<open>
  The chain of the job and the four rules agree on every snapshot and state in which neither
  the final price nor the last price is 0 (\<open>decision_agrees_nonzero\<close>), and a lower final
  price then notifies with the price-drop reason (\<open>price_drop_notifies_nonzero\<close>). The
  second branch of the chain tests the two prices for truth, so a price of 0 counts as absent
  there, while \<^verbatim>\<open>fetch_steam_appdetails\<close> and \<^verbatim>\<open>rupees\<close> test the same values with
  \<^verbatim>\<open>is None\<close> and keep 0 as a price.
\<close>

text \<open>
  Claim C1. The decision of the job equals the four-rule function of the specification on
  every snapshot and state. Evaluated here at the state (0 percent, price 500) and the
  snapshot (0 percent, final price 0): rule 3 says notify, the job decides not to.
\<close>

theorem decision_departs_from_rules_at_price_zero:
  "spec_decision (ex_info 0 (Some 0)) (state_of (ex_row ''20'') (ex_world [ex_state 0 (Some 500)]))
   \<and> \<not> fst (item_decision (ex_info 0 (Some 0))
            (state_of (ex_row ''20'') (ex_world [ex_state 0 (Some 500)])))"
  by (simp add: item_decision_def notify_decision_def spec_decision_def truthy_def
        last_disc_of_def last_price_of_def db_get_notify_state_def ns_key_def)

text \<open>
  Claim C3. With both prices present, the final price below the last price and no earlier
  rule firing, the decision is to notify with the price-drop reason, also when a price is 0.
  Evaluated here at the state (0 percent, price 500) and the snapshot (0 percent, final
  price 0): the discount is unchanged and the price fell from 500 to 0, yet the decision is
  not to notify and the iteration changes nothing.
\<close>

theorem price_drop_to_zero_not_notified:
  "state_of (ex_row ''20'') (ex_world [ex_state 0 (Some 500)]) = Some (Some 0, Some 500, Some 1600000000)
   \<and> final_price (ex_info 0 (Some 0)) = Some 0
   \<and> (0::int) < 500
   \<and> item_decision (ex_info 0 (Some 0)) (Some (Some 0, Some 500, Some 1600000000)) = (False, NoReason)
   \<and> process_row (ex_env 0 (Some 0)) (ex_row ''20'') (ex_world [ex_state 0 (Some 500)])
       = ex_world [ex_state 0 (Some 500)]"
  by (simp add: process_row_def item_decision_def notify_decision_def truthy_def
        last_disc_of_def last_price_of_def db_get_notify_state_def ns_key_def)

section \<open>Adding and removing wishlist and tracking entries\<close>

text \<open>
  Claim C8. Adding a wishlist or tracking entry whose key is already in the table returns
  \<^verbatim>\<open>False\<close> and leaves the table as it was (and an entry with a new key returns
  \<^verbatim>\<open>True\<close> and appends the row); removing by key returns \<^verbatim>\<open>True\<close> exactly when a row
  with the key was in the table, and afterwards the table holds the rows of the other keys
  and no row of that key.
\<close>

theorem add_and_remove_signals:
  "((u, p, i) \<in> wl_key ` set wl \<longrightarrow> db_add_wishlist u p i t wl = (False, wl))
   \<and> ((u, p, i) \<in> tr_key ` set tr \<longrightarrow> db_add_tracking u p i t th tr = (False, tr))
   \<and> ((u, p, i) \<notin> wl_key ` set wl \<longrightarrow> db_add_wishlist u p i t wl =
         (True, wl @ [\<lparr>wl_user_id = u, wl_platform = p, wl_identifier = i, wl_title = t\<rparr>]))
   \<and> ((u, p, i) \<notin> tr_key ` set tr \<longrightarrow> db_add_tracking u p i t th tr =
         (True, tr @ [\<lparr>tr_user_id = u, tr_platform = p, tr_identifier = i, tr_title = t,
                       tr_threshold = th\<rparr>]))
   \<and> fst (db_remove_wishlist u p i wl) = ((u, p, i) \<in> wl_key ` set wl)
   \<and> set (snd (db_remove_wishlist u p i wl)) = set wl - {r. wl_key r = (u, p, i)}
   \<and> fst (db_remove_tracking u p i tr) = ((u, p, i) \<in> tr_key ` set tr)
   \<and> set (snd (db_remove_tracking u p i tr)) = set tr - {r. tr_key r = (u, p, i)}"
proof -
  have "fst (db_remove_wishlist u p i wl) = ((u, p, i) \<in> wl_key ` set wl)"
    by (simp add: db_remove_wishlist_def Let_def filter_key_nonempty)
  moreover have "set (snd (db_remove_wishlist u p i wl)) = set wl - {r. wl_key r = (u, p, i)}"
    by (auto simp: db_remove_wishlist_def Let_def)
  moreover have "fst (db_remove_tracking u p i tr) = ((u, p, i) \<in> tr_key ` set tr)"
    by (simp add: db_remove_tracking_def Let_def filter_key_nonempty)
  moreover have "set (snd (db_remove_tracking u p i tr)) = set tr - {r. tr_key r = (u, p, i)}"
    by (auto simp: db_remove_tracking_def Let_def)
  ultimately show ?thesis
    by (simp add: add_wishlist_result add_tracking_result)
qed

theorem add_and_remove_signals_witness:
  "(7, ''steam'', ''20'') \<in> wl_key ` set [\<lparr>wl_user_id = 7, wl_platform = ''steam'',
        wl_identifier = ''20'', wl_title = Some ''Game''\<rparr>]
   \<and> db_add_wishlist 7 ''steam'' ''20'' (Some ''Again'')
        [\<lparr>wl_user_id = 7, wl_platform = ''steam'', wl_identifier = ''20'', wl_title = Some ''Game''\<rparr>]
       = (False, [\<lparr>wl_user_id = 7, wl_platform = ''steam'', wl_identifier = ''20'',
                   wl_title = Some ''Game''\<rparr>])
   \<and> (7, ''steam'', ''20'') \<in> tr_key ` set [ex_row ''20'']
   \<and> db_add_tracking 7 ''steam'' ''20'' (Some ''Again'') (Some 0) [ex_row ''20'']
       = (False, [ex_row ''20''])
   \<and> (7, ''steam'', ''30'') \<notin> tr_key ` set [ex_row ''20'']
   \<and> db_add_tracking 7 ''steam'' ''30'' (Some ''Game'') (Some 0) [ex_row ''20'']
       = (True, [ex_row ''20'', ex_row ''30''])
   \<and> fst (db_remove_tracking 7 ''steam'' ''20'' [ex_row ''20''])
   \<and> \<not> fst (db_remove_tracking 7 ''steam'' ''30'' [ex_row ''20''])"
  using add_and_remove_signals [of 7 "''steam''" "''20''"
      "[\<lparr>wl_user_id = 7, wl_platform = ''steam'', wl_identifier = ''20'', wl_title = Some ''Game''\<rparr>]"
      "Some ''Again''" "[ex_row ''20'']" "Some 0"]
    add_and_remove_signals [of 7 "''steam''" "''30''" "[]" "Some ''Game''" "[ex_row ''20'']" "Some 0"]
  by (simp add: wl_key_def tr_key_def)

section \<open>One state row per key\<close>

text \<open>
  Claim C7. When the state table holds at most one row per key
  \<^verbatim>\<open>(user_id, platform, identifier)\<close>, it still does after
  \<^verbatim>\<open>db_upsert_notify_state\<close>, after one iteration of the job and after a whole run of the
  job. After the upsert the table holds exactly one row for the upserted key, that row reads
  the new discount percent, price and timestamp, the rows of every other key are as they
  were, and the table has grown by one row if the key was absent and by none if it was
  present.
\<close>

theorem one_state_row_per_key:
  assumes "distinct (map ns_key (notify_state w))"
  shows "distinct (map ns_key (db_upsert_notify_state ts u p i d pr (notify_state w)))
       \<and> length (filter (\<lambda>r. ns_key r = (u, p, i))
                  (db_upsert_notify_state ts u p i d pr (notify_state w))) = 1
       \<and> db_get_notify_state u p i (db_upsert_notify_state ts u p i d pr (notify_state w))
           = Some (Some d, pr, Some ts)
       \<and> filter (\<lambda>r. ns_key r \<noteq> (u, p, i)) (db_upsert_notify_state ts u p i d pr (notify_state w))
           = filter (\<lambda>r. ns_key r \<noteq> (u, p, i)) (notify_state w)
       \<and> length (db_upsert_notify_state ts u p i d pr (notify_state w))
           = (if (u, p, i) \<in> ns_key ` set (notify_state w) then length (notify_state w)
              else Suc (length (notify_state w)))
       \<and> distinct (map ns_key (notify_state (process_row e row w)))
       \<and> distinct (map ns_key (notify_state (job_check_prices e w)))"
proof -
  have "length (map ns_key (db_upsert_notify_state ts u p i d pr (notify_state w)))
           = (if (u, p, i) \<in> ns_key ` set (notify_state w) then length (notify_state w)
              else Suc (length (notify_state w)))"
    unfolding upsert_keys by simp
  then have "length (db_upsert_notify_state ts u p i d pr (notify_state w))
           = (if (u, p, i) \<in> ns_key ` set (notify_state w) then length (notify_state w)
              else Suc (length (notify_state w)))"
    by simp
  then show ?thesis
    using assms
    by (simp add: upsert_distinct upsert_one_row get_after_upsert upsert_others
          process_row_distinct for_rows_distinct job_check_prices_def)
qed

theorem one_state_row_per_key_witness:
  "distinct (map ns_key (notify_state (ex_world [ex_state 5 (Some 950)])))
   \<and> db_upsert_notify_state 1700000000 7 ''steam'' ''20'' 10 (Some 900)
        (notify_state (ex_world [ex_state 5 (Some 950)]))
       = [\<lparr>ns_user_id = 7, ns_platform = ''steam'', ns_identifier = ''20'',
           last_discount_percent = Some 10, last_price = Some 900,
           last_notified_at = Some 1700000000\<rparr>]
   \<and> length (filter (\<lambda>r. ns_key r = (7, ''steam'', ''20''))
        (db_upsert_notify_state 1700000000 7 ''steam'' ''20'' 10 (Some 900)
           (notify_state (ex_world [ex_state 5 (Some 950)])))) = 1"
  using one_state_row_per_key [of "ex_world [ex_state 5 (Some 950)]" 1700000000 7 "''steam''"
      "''20''" 10 "Some 900" "ex_env 10 (Some 900)" "ex_row ''20''"]
  by (simp add: db_upsert_notify_state_def ns_key_def)

section \<open>What a notify decision does to the store\<close>

text \<open>
  Claim C2. Whenever the decision for a tracked item is to notify, the state row of the
  item's key afterwards holds the snapshot's discount percent, its final price and the clock
  reading taken at that moment (one more reading than before), and the state table is the
  same whatever \<^verbatim>\<open>send_message\<close> does, returning or raising: a failed delivery does not
  prevent the update.
\<close>

theorem notify_overwrites_state:
  assumes "tr_platform row = ''steam''"
    and "fetch_steam_appdetails e (tr_identifier row) = Some i"
    and "fst (item_decision i (state_of row w))"
  shows "state_of row (process_row e row w)
           = Some (Some (discount_percent i), final_price i, Some (clock e (clock_reads w)))
       \<and> clock_reads (process_row e row w) = Suc (clock_reads w)
       \<and> notify_state (process_row (e\<lparr>send_message := deliver\<rparr>) row w)
           = notify_state (process_row e row w)"
proof -
  have "fetch_steam_appdetails (e\<lparr>send_message := deliver\<rparr>) (tr_identifier row) = Some i"
    using assms(2) by simp
  from process_row_notify [OF assms(1) this assms(3)] process_row_notify [OF assms]
  have "notify_state (process_row (e\<lparr>send_message := deliver\<rparr>) row w)
           = notify_state (process_row e row w)"
    by simp
  moreover have "clock_reads (process_row e row w) = Suc (clock_reads w)"
    by (simp add: process_row_notify [OF assms])
  ultimately show ?thesis
    using state_after_notify [OF assms] by simp
qed

theorem notify_overwrites_state_witness:
  "fst (item_decision (ex_info 10 (Some 900)) (state_of (ex_row ''20'') (ex_world [ex_state 5 (Some 950)])))
   \<and> send_message (ex_env 10 (Some 900)) 7
        \<lparr>msg_title = Some ''Game'', msg_reason = Discount 10,
         msg_url = ''https://store.steampowered.com/app/20'', msg_now = Some 900,
         msg_mrp = Some 1000\<rparr> = Raised
   \<and> state_of (ex_row ''20'')
        (process_row (ex_env 10 (Some 900)) (ex_row ''20'') (ex_world [ex_state 5 (Some 950)]))
       = Some (Some 10, Some 900, Some 1700000000)"
  using notify_overwrites_state [of "ex_row ''20''" "ex_env 10 (Some 900)" "ex_info 10 (Some 900)"
      "ex_world [ex_state 5 (Some 950)]" "\<lambda>chat_id text. Delivered"]
  by (simp add: item_decision_def notify_decision_def last_disc_of_def last_price_of_def
        db_get_notify_state_def ns_key_def)

text \<open>
  Claim C5. For a tracked item with no state row and a snapshot whose discount percent is
  positive, the decision is to notify, one message is sent, and the state table gains exactly
  one row for the key, holding the snapshot's discount percent and final price.
\<close>

theorem first_discount_notifies:
  assumes "tr_platform row = ''steam''"
    and "fetch_steam_appdetails e (tr_identifier row) = Some i"
    and "state_of row w = None"
    and "discount_percent i > 0"
  shows "item_decision i (state_of row w) = (True, Discount (discount_percent i))
       \<and> notify_state (process_row e row w) = notify_state w @
           [\<lparr>ns_user_id = tr_user_id row, ns_platform = tr_platform row,
             ns_identifier = tr_identifier row,
             last_discount_percent = Some (discount_percent i), last_price = final_price i,
             last_notified_at = Some (clock e (clock_reads w))\<rparr>]
       \<and> state_of row (process_row e row w)
           = Some (Some (discount_percent i), final_price i, Some (clock e (clock_reads w)))
       \<and> length (sent (process_row e row w)) = Suc (length (sent w))"
proof -
  have dec: "item_decision i (state_of row w) = (True, Discount (discount_percent i))"
    using assms(3,4) by (simp add: item_decision_def notify_decision_def last_disc_of_def)
  then have n: "fst (item_decision i (state_of row w))" by simp
  note step = process_row_notify [OF assms(1,2) n]
  have "notify_state (process_row e row w) = notify_state w @
           [\<lparr>ns_user_id = tr_user_id row, ns_platform = tr_platform row,
             ns_identifier = tr_identifier row,
             last_discount_percent = Some (discount_percent i), last_price = final_price i,
             last_notified_at = Some (clock e (clock_reads w))\<rparr>]"
    by (simp add: step upsert_absent [OF assms(3)])
  moreover have "length (sent (process_row e row w)) = Suc (length (sent w))"
    by (simp add: step)
  ultimately show ?thesis
    using dec state_after_notify [OF assms(1,2) n] by simp
qed

theorem first_discount_notifies_witness:
  "state_of (ex_row ''20'') (ex_world []) = None
   \<and> discount_percent (ex_info 10 (Some 900)) > 0
   \<and> item_decision (ex_info 10 (Some 900)) (state_of (ex_row ''20'') (ex_world []))
       = (True, Discount 10)
   \<and> notify_state (process_row (ex_env 10 (Some 900)) (ex_row ''20'') (ex_world []))
       = [\<lparr>ns_user_id = 7, ns_platform = ''steam'', ns_identifier = ''20'',
           last_discount_percent = Some 10, last_price = Some 900,
           last_notified_at = Some 1700000000\<rparr>]"
  using first_discount_notifies [of "ex_row ''20''" "ex_env 10 (Some 900)"
      "ex_info 10 (Some 900)" "ex_world []"]
  by (simp add: db_get_notify_state_def)

section \<open>Idempotence\<close>

text \<open>
  Claim C4. After an iteration that notified, an iteration on the same tracked item with the
  identical snapshot decides not to notify and changes nothing: no second message, no write
  to the store.
\<close>

theorem same_snapshot_no_second_notification:
  assumes "tr_platform row = ''steam''"
    and "fetch_steam_appdetails e (tr_identifier row) = Some i"
    and "fetch_steam_appdetails e' (tr_identifier row) = Some i"
    and "fst (item_decision i (state_of row w))"
  shows "\<not> fst (item_decision i (state_of row (process_row e row w)))
       \<and> process_row e' row (process_row e row w) = process_row e row w"
proof -
  have st: "state_of row (process_row e row w)
           = Some (Some (discount_percent i), final_price i, Some (clock e (clock_reads w)))"
    using assms(1,2,4) by (rule state_after_notify)
  then have no: "\<not> fst (item_decision i (state_of row (process_row e row w)))"
    by (simp add: decision_same_snapshot)
  have "process_row e' row (process_row e row w) = process_row e row w"
    using assms(1,3) no by (rule process_row_noop) (simp add: st)
  with no show ?thesis by simp
qed

theorem same_snapshot_no_second_notification_witness:
  "fst (item_decision (ex_info 10 (Some 900)) (state_of (ex_row ''20'') (ex_world [])))
   \<and> \<not> fst (item_decision (ex_info 10 (Some 900))
        (state_of (ex_row ''20'') (process_row (ex_env 10 (Some 900)) (ex_row ''20'') (ex_world []))))
   \<and> process_row (ex_env 10 (Some 900)) (ex_row ''20'')
        (process_row (ex_env 10 (Some 900)) (ex_row ''20'') (ex_world []))
       = process_row (ex_env 10 (Some 900)) (ex_row ''20'') (ex_world [])"
  using same_snapshot_no_second_notification [of "ex_row ''20''" "ex_env 10 (Some 900)"
      "ex_info 10 (Some 900)" "ex_env 10 (Some 900)" "ex_world []"]
  by (simp add: item_decision_def notify_decision_def last_disc_of_def last_price_of_def
        db_get_notify_state_def)

section \<open>What a no-op decision leaves alone\<close>

text \<open>
  Claim C6. For a tracked item whose snapshot was fetched: when the decision is not to notify
  and a state row exists, the iteration changes nothing at all; when the decision is not to
  notify and no state row exists, no message is sent and the snapshot is recorded as a new
  row (the baseline); and when the last discount percent was positive, the current one is 0
  and the final price is not below the last price (or one of the two is absent), the
  decision is not to notify and the iteration changes nothing.
\<close>

theorem noop_leaves_state:
  assumes "tr_platform row = ''steam''"
    and "fetch_steam_appdetails e (tr_identifier row) = Some i"
  shows "(\<not> fst (item_decision i (state_of row w)) \<and> state_of row w \<noteq> None
            \<longrightarrow> process_row e row w = w)
       \<and> (\<not> fst (item_decision i (state_of row w)) \<and> state_of row w = None
            \<longrightarrow> sent (process_row e row w) = sent w
              \<and> notify_state (process_row e row w) = notify_state w @
                  [\<lparr>ns_user_id = tr_user_id row, ns_platform = tr_platform row,
                    ns_identifier = tr_identifier row,
                    last_discount_percent = Some (discount_percent i),
                    last_price = final_price i,
                    last_notified_at = Some (clock e (clock_reads w))\<rparr>])
       \<and> (state_of row w = Some (Some d, lp, t) \<and> 0 < d \<and> discount_percent i = 0
            \<and> (case (final_price i, lp) of (Some f, Some l) \<Rightarrow> l \<le> f | _ \<Rightarrow> True)
            \<longrightarrow> \<not> fst (item_decision i (state_of row w)) \<and> process_row e row w = w)"
proof (intro conjI impI)
  assume "\<not> fst (item_decision i (state_of row w)) \<and> state_of row w \<noteq> None"
  then have "\<not> fst (item_decision i (state_of row w))" and "state_of row w \<noteq> None"
    by blast+
  with assms show "process_row e row w = w"
    by (rule process_row_noop)
next
  assume a: "\<not> fst (item_decision i (state_of row w)) \<and> state_of row w = None"
  then have n: "\<not> fst (item_decision i (state_of row w))" and s: "state_of row w = None"
    by blast+
  have step: "process_row e row w =
     w\<lparr>notify_state := db_upsert_notify_state (clock e (clock_reads w)) (tr_user_id row)
            (tr_platform row) (tr_identifier row) (discount_percent i) (final_price i) (notify_state w),
       clock_reads := Suc (clock_reads w)\<rparr>"
    using assms n s by (rule process_row_bootstrap)
  show "sent (process_row e row w) = sent w"
    by (simp add: step)
  from s show "notify_state (process_row e row w) = notify_state w @
                  [\<lparr>ns_user_id = tr_user_id row, ns_platform = tr_platform row,
                    ns_identifier = tr_identifier row,
                    last_discount_percent = Some (discount_percent i),
                    last_price = final_price i,
                    last_notified_at = Some (clock e (clock_reads w))\<rparr>]"
    by (simp add: step upsert_absent)
next
  assume a: "state_of row w = Some (Some d, lp, t) \<and> 0 < d \<and> discount_percent i = 0
            \<and> (case (final_price i, lp) of (Some f, Some l) \<Rightarrow> l \<le> f | _ \<Rightarrow> True)"
  then have dec: "item_decision i (state_of row w) = (False, NoReason)"
    by (simp add: decision_discount_reverted)
  then show "\<not> fst (item_decision i (state_of row w))" by simp
  from dec have "\<not> fst (item_decision i (state_of row w))" by simp
  moreover from a have "state_of row w \<noteq> None" by simp
  ultimately show "process_row e row w = w"
    using assms by (intro process_row_noop)
qed

theorem noop_leaves_state_witness:
  "(\<not> fst (item_decision (ex_info 10 (Some 900))
          (state_of (ex_row ''20'') (ex_world [ex_state 10 (Some 900)])))
    \<and> state_of (ex_row ''20'') (ex_world [ex_state 10 (Some 900)]) \<noteq> None
    \<and> process_row (ex_env 10 (Some 900)) (ex_row ''20'') (ex_world [ex_state 10 (Some 900)])
        = ex_world [ex_state 10 (Some 900)])
   \<and> (\<not> fst (item_decision (ex_info 0 (Some 900)) (state_of (ex_row ''20'') (ex_world [])))
    \<and> state_of (ex_row ''20'') (ex_world []) = None
    \<and> sent (process_row (ex_env 0 (Some 900)) (ex_row ''20'') (ex_world [])) = []
    \<and> notify_state (process_row (ex_env 0 (Some 900)) (ex_row ''20'') (ex_world []))
        = [\<lparr>ns_user_id = 7, ns_platform = ''steam'', ns_identifier = ''20'',
            last_discount_percent = Some 0, last_price = Some 900,
            last_notified_at = Some 1700000000\<rparr>])
   \<and> (state_of (ex_row ''20'') (ex_world [ex_state 20 (Some 800)])
        = Some (Some 20, Some 800, Some 1600000000)
    \<and> discount_percent (ex_info 0 (Some 1000)) = 0
    \<and> process_row (ex_env 0 (Some 1000)) (ex_row ''20'') (ex_world [ex_state 20 (Some 800)])
        = ex_world [ex_state 20 (Some 800)])"
  using noop_leaves_state [of "ex_row ''20''" "ex_env 10 (Some 900)" "ex_info 10 (Some 900)"
      "ex_world [ex_state 10 (Some 900)]" 10 "Some 900" "Some 1600000000"]
    noop_leaves_state [of "ex_row ''20''" "ex_env 0 (Some 900)" "ex_info 0 (Some 900)"
      "ex_world []" 1 None None]
    noop_leaves_state [of "ex_row ''20''" "ex_env 0 (Some 1000)" "ex_info 0 (Some 1000)"
      "ex_world [ex_state 20 (Some 800)]" 20 "Some 800" "Some 1600000000"]
  by (simp add: item_decision_def notify_decision_def last_disc_of_def last_price_of_def
        db_get_notify_state_def ns_key_def truthy_def)

section \<open>Independence of the items of one run\<close>

text \<open>
  Claim C9. When \<^verbatim>\<open>fetch_steam_appdetails\<close> returns \<^verbatim>\<open>None\<close> for a tracked item, the
  iteration for that item changes nothing (no state row written, no message sent, no clock
  reading), and the run over a tracking table that holds the item, anywhere in it, ends in
  the world the run without the item ends in, the tracking table itself apart.
\<close>

theorem unavailable_item_skipped:
  assumes "fetch_steam_appdetails e (tr_identifier row) = None"
  shows "process_row e row w = w
       \<and> for_rows e (xs @ row # ys) w = for_rows e (xs @ ys) w
       \<and> job_check_prices e (w\<lparr>tracking := xs @ row # ys\<rparr>)
           = (job_check_prices e (w\<lparr>tracking := xs @ ys\<rparr>))\<lparr>tracking := xs @ row # ys\<rparr>"
proof -
  have skip: "process_row e row v = v" for v
    using assms by (simp add: process_row_skip)
  have rows: "for_rows e (xs @ row # ys) v = for_rows e (xs @ ys) v" for v
    by (simp add: for_rows_append skip)
  show ?thesis
    by (simp add: skip rows job_check_prices_def db_get_all_tracked_def for_rows_tracking)
qed

theorem unavailable_item_skipped_witness:
  "fetch_steam_appdetails (ex_env 10 (Some 900)) (tr_identifier (ex_row ''10'')) = None
   \<and> process_row (ex_env 10 (Some 900)) (ex_row ''10'') (ex_world []) = ex_world []
   \<and> for_rows (ex_env 10 (Some 900))
         ([ex_row ''20'', ex_row ''30''] @ ex_row ''10'' # [ex_row ''40'', ex_row ''50'']) (ex_world [])
     = for_rows (ex_env 10 (Some 900))
         ([ex_row ''20'', ex_row ''30''] @ [ex_row ''40'', ex_row ''50'']) (ex_world [])"
  using unavailable_item_skipped [of "ex_env 10 (Some 900)" "ex_row ''10''" "ex_world []"
      "[ex_row ''20'', ex_row ''30'']" "[ex_row ''40'', ex_row ''50'']"]
  by simp

section \<open>The alert threshold\<close>

text \<open>
  Claim C10. The threshold stored with a tracked item is never consulted: an iteration of
  the job on a row gives the same world whatever the row's threshold is, and a run of the job
  on a tracking table whose thresholds have been replaced ends in the same world (the same
  messages with the same text, the same state rows, the same clock readings), the tracking
  table itself apart.
\<close>

theorem threshold_never_consulted:
  "process_row e (row\<lparr>tr_threshold := th\<rparr>) w = process_row e row w
   \<and> job_check_prices e (w\<lparr>tracking := map (\<lambda>r. r\<lparr>tr_threshold := f r\<rparr>) (tracking w)\<rparr>)
       = (job_check_prices e w)\<lparr>tracking := map (\<lambda>r. r\<lparr>tr_threshold := f r\<rparr>) (tracking w)\<rparr>"
  by (simp add: job_check_prices_def db_get_all_tracked_def for_rows_tracking
        for_rows_threshold process_row_threshold)

end
